theory Spec2Isabelle
  imports Complex_Main "HOL-Library.AList" "HOL-Library.Multiset"
begin

section \<open>Data model\<close>

text \<open>
  The rows of the \<^verbatim>\<open>personas\<close> and \<^verbatim>\<open>generated_posts\<close> tables, with the columns
  the simulation code branches on. The remaining columns (company, industry, bio, ...) are
  only interpolated into the prompt text.
\<close>

record Persona =
  persona_id :: string
  persona_userId :: string
  name :: string
  title :: string
  socialBehavior :: string

record GeneratedPost =
  post_id :: string
  post_userId :: string
  variationNumber :: int
  platform :: string
  content :: string

text \<open>\<^verbatim>\<open>interface SimulationResult\<close> of simulation.service.ts; a row of
  \<^verbatim>\<open>post_simulations\<close> carries the same fields.\<close>

record SimulationResult =
  personaId :: string
  postId :: string
  liked :: bool
  shared :: bool
  commented :: bool
  commentText :: "string option"
  reasoning :: string
  engagementScore :: int

section \<open>The reply of the language model\<close>

text \<open>
  \<^verbatim>\<open>JSON.parse\<close> returns an untyped value. The four flags are read through
  \<^verbatim>\<open>Boolean(...)\<close>, so they are kept as JavaScript values with their truthiness; the two
  text properties are \<open>None\<close> when null or absent.
\<close>

datatype jsval = JUndefined | JNull | JBool bool | JNum rat | JStr string | JObject

fun Boolean :: "jsval \<Rightarrow> bool" where
  "Boolean JUndefined = False"
| "Boolean JNull = False"
| "Boolean (JBool b) = b"
| "Boolean (JNum n) = (n \<noteq> 0)"
| "Boolean (JStr s) = (s \<noteq> [])"
| "Boolean JObject = True"

record parsed =
  parsed_stoppedScrolling :: jsval
  parsed_liked :: jsval
  parsed_shared :: jsval
  parsed_commented :: jsval
  parsed_commentText :: "string option"
  parsed_reasoning :: "string option"

text \<open>
  What the body of the \<^verbatim>\<open>try\<close> block can meet before the gates: the request rejects, the
  text is not JSON (\<^verbatim>\<open>JSON.parse\<close> throws), the text is the JSON value \<^verbatim>\<open>null\<close> (reading a
  property of it throws), or a value whose properties can be read.
\<close>

datatype llm_reply = CallFails | Unparseable | ParsedNull | Parsed parsed

type_synonym judgment_oracle = "Persona \<Rightarrow> GeneratedPost \<Rightarrow> llm_reply"

section \<open>Probability gates\<close>

text \<open>The decimal literals of the table, as the binary64 values JavaScript reads them as.\<close>

definition d_0_30 :: rat where "d_0_30 = 5404319552844595 / 18014398509481984"
definition d_0_50 :: rat where "d_0_50 = 1 / 2"
definition d_0_08 :: rat where "d_0_08 = 5764607523034235 / 72057594037927936"
definition d_0_02 :: rat where "d_0_02 = 5764607523034235 / 288230376151711744"
definition d_0_60 :: rat where "d_0_60 = 5404319552844595 / 9007199254740992"
definition d_0_18 :: rat where "d_0_18 = 3242591731706757 / 18014398509481984"
definition d_0_06 :: rat where "d_0_06 = 1080863910568919 / 18014398509481984"
definition d_0_70 :: rat where "d_0_70 = 3152519739159347 / 4503599627370496"
definition d_0_75 :: rat where "d_0_75 = 3 / 4"
definition d_0_35 :: rat where "d_0_35 = 3152519739159347 / 9007199254740992"
definition d_0_12 :: rat where "d_0_12 = 1080863910568919 / 9007199254740992"
definition d_0_85 :: rat where "d_0_85 = 7656119366529843 / 9007199254740992"
definition d_0_45 :: rat where "d_0_45 = 8106479329266893 / 18014398509481984"
definition d_0_22 :: rat where "d_0_22 = 7926335344172073 / 36028797018963968"

lemmas binary64_literals =
  d_0_30_def d_0_50_def d_0_08_def d_0_02_def d_0_60_def d_0_18_def d_0_06_def
  d_0_70_def d_0_75_def d_0_35_def d_0_12_def d_0_85_def d_0_45_def d_0_22_def

record gates =
  stopRate :: rat
  likeRate :: rat
  commentRate :: rat
  shareRate :: rat

text \<open>The object literal \<^verbatim>\<open>PROBABILITY_GATES\<close>, its own properties in the order written.\<close>

definition PROBABILITY_GATES :: "(string \<times> gates) list" where
  "PROBABILITY_GATES =
    [(''lurker'',
        \<lparr>stopRate = d_0_30, likeRate = d_0_50, commentRate = d_0_08, shareRate = d_0_02\<rparr>),
     (''casual_engager'',
        \<lparr>stopRate = d_0_50, likeRate = d_0_60, commentRate = d_0_18, shareRate = d_0_06\<rparr>),
     (''active_commenter'',
        \<lparr>stopRate = d_0_70, likeRate = d_0_75, commentRate = d_0_35, shareRate = d_0_12\<rparr>),
     (''power_sharer'',
        \<lparr>stopRate = d_0_85, likeRate = d_0_85, commentRate = d_0_45, shareRate = d_0_22\<rparr>)]"

definition casual_engager :: gates where
  "casual_engager =
     \<lparr>stopRate = d_0_50, likeRate = d_0_60, commentRate = d_0_18, shareRate = d_0_06\<rparr>"

text \<open>
  \<^verbatim>\<open>PROBABILITY_GATES[persona.socialBehavior] || PROBABILITY_GATES.casual_engager\<close>.
  A property read on an object literal also finds the properties inherited from
  \<^verbatim>\<open>Object.prototype\<close>; those are functions (truthy), so there is no fall-back for their
  names, and the four rates read from such a value are \<^verbatim>\<open>undefined\<close>.
\<close>

definition Object_prototype_keys :: "string list" where
  "Object_prototype_keys =
    [''constructor'', ''hasOwnProperty'', ''isPrototypeOf'', ''propertyIsEnumerable'',
     ''toLocaleString'', ''toString'', ''valueOf'', ''__proto__'', ''__defineGetter__'',
     ''__defineSetter__'', ''__lookupGetter__'', ''__lookupSetter__'']"

datatype gate_lookup = Rates gates | NoRates

definition lookup_gates :: "string \<Rightarrow> gate_lookup" where
  "lookup_gates behavior =
     (case map_of PROBABILITY_GATES behavior of
        Some g \<Rightarrow> Rates g
      | None \<Rightarrow> if behavior \<in> set Object_prototype_keys then NoRates else Rates casual_engager)"

text \<open>\<^verbatim>\<open>r < gates.xRate\<close>; a comparison with \<^verbatim>\<open>undefined\<close> is false.\<close>

fun below :: "rat \<Rightarrow> (gates \<Rightarrow> rat) \<Rightarrow> gate_lookup \<Rightarrow> bool" where
  "below r rate (Rates g) = (r < rate g)"
| "below r rate NoRates = False"

section \<open>The process-wide state\<close>

text \<open>
  Progress messages, with the values their template strings interpolate (the rendered
  percentage is a function of the two counts it is computed from).
\<close>

datatype label = YourOriginalPost | Variation int

datatype message =
    AssemblingPanel
  | AlreadyTested nat nat nat
  | FocusGroupReady nat nat
  | ScrollingThroughFeed string
  | AllScrolledPast nat
  | Reacted string "string list" "int option"
  | ReactionsSimulated nat nat
  | AllPostsHaveResults
  | FocusGroupComplete nat nat nat nat nat
  | TopPerformer label

text \<open>
  \<open>rng\<close> is the sequence of values the coming calls of \<^verbatim>\<open>Math.random()\<close> return;
  \<open>oracle_calls\<close> records every chat-completion request issued; the three tables and the
  user's row are the database.
\<close>

record world =
  rng :: "nat \<Rightarrow> rat"
  oracle_calls :: "(Persona \<times> GeneratedPost) list"
  personas_table :: "Persona list"
  posts_table :: "GeneratedPost list"
  post_simulations :: "SimulationResult list"
  simulationStatus :: string
  simulationActivityLog :: "message list"
  onboardingStep :: int

definition Math_random :: "world \<Rightarrow> rat \<times> world" where
  "Math_random w = (rng w 0, w\<lparr>rng := (\<lambda>n. rng w (Suc n))\<rparr>)"

text \<open>\<^verbatim>\<open>flag && Math.random() < gates.xRate\<close>: no draw is taken when the flag is false.\<close>

definition gate :: "bool \<Rightarrow> (gates \<Rightarrow> rat) \<Rightarrow> gate_lookup \<Rightarrow> world \<Rightarrow> bool \<times> world" where
  "gate flag rate gs w =
     (if flag then (let (r, w') = Math_random w in (below r rate gs, w')) else (False, w))"

section \<open>simulateReaction\<close>

definition em_dash :: string where
  "em_dash = [CHR 0xE2, CHR 0x80, CHR 0x94]"

definition could_not_complete :: "Persona \<Rightarrow> GeneratedPost \<Rightarrow> SimulationResult" where
  "could_not_complete persona post =
     \<lparr>personaId = persona_id persona, postId = post_id post,
      liked = False, shared = False, commented = False, commentText = None,
      reasoning = ''Simulation could not be completed'', engagementScore = 0\<rparr>"

text \<open>\<^verbatim>\<open>x || d\<close> on a text property: null, absent and the empty string give \<open>d\<close>.\<close>

fun or_else :: "string option \<Rightarrow> 'a \<Rightarrow> (string \<Rightarrow> 'a) \<Rightarrow> 'a" where
  "or_else None d f = d"
| "or_else (Some s) d f = (if s = [] then d else f s)"

definition gated_reaction ::
  "Persona \<Rightarrow> GeneratedPost \<Rightarrow> parsed \<Rightarrow> world \<Rightarrow> SimulationResult \<times> world" where
  "gated_reaction persona post p w0 =
     (let gs = lookup_gates (socialBehavior persona);
          llmStopped = Boolean (parsed_stoppedScrolling p);
          llmLiked = Boolean (parsed_liked p);
          llmCommented = Boolean (parsed_commented p);
          llmShared = Boolean (parsed_shared p);
          (stopped, w1) = gate llmStopped stopRate gs w0;
          (liked', w2) = gate (stopped \<and> llmLiked) likeRate gs w1;
          (commented', w3) = gate (stopped \<and> llmCommented) commentRate gs w2;
          (shared', w4) = gate (stopped \<and> llmShared) shareRate gs w3;
          score = (0::int);
          score = (if liked' then score + 1 else score);
          score = (if commented' then score + 3 else score);
          score = (if shared' then score + 5 else score);
          reasoning0 = or_else (parsed_reasoning p) ''Scrolled past without noticing'' (\<lambda>s. s);
          reasoning1 = (if llmStopped \<and> \<not> stopped
                        then ''Glanced at it but kept scrolling '' @ em_dash @ '' '' @ reasoning0
                        else reasoning0)
      in (\<lparr>personaId = persona_id persona, postId = post_id post,
           liked = liked', shared = shared', commented = commented',
           commentText = (if commented' then or_else (parsed_commentText p) None Some else None),
           reasoning = reasoning1, engagementScore = score\<rparr>, w4))"

text \<open>
  The request is issued first; whatever throws inside the \<^verbatim>\<open>try\<close> block ends in the
  \<^verbatim>\<open>catch\<close>, which returns the fixed negative result.
\<close>

definition simulateReaction ::
  "judgment_oracle \<Rightarrow> Persona \<Rightarrow> GeneratedPost \<Rightarrow> world \<Rightarrow> SimulationResult \<times> world" where
  "simulateReaction judge persona post w =
     (let w0 = w\<lparr>oracle_calls := oracle_calls w @ [(persona, post)]\<rparr>
      in case judge persona post of
           Parsed p \<Rightarrow> gated_reaction persona post p w0
         | _ \<Rightarrow> (could_not_complete persona post, w0))"

section \<open>runFullSimulation\<close>

type_synonym progress_callback = "message \<Rightarrow> world \<Rightarrow> world"

definition BATCH_SIZE :: nat where
  "BATCH_SIZE = 8"

text \<open>The two nested \<^verbatim>\<open>for ... of\<close> loops: persona-major, post-minor.\<close>

definition build_pairs :: "Persona list \<Rightarrow> GeneratedPost list \<Rightarrow> (Persona \<times> GeneratedPost) list" where
  "build_pairs personaList posts =
     concat (map (\<lambda>persona. map (\<lambda>post. (persona, post)) posts) personaList)"

text \<open>
  \<^verbatim>\<open>Promise.all(batch.map(...))\<close>: the requests are issued in the order of the batch and the
  array of results has the order of the batch. The calls finish in any order, which only
  decides which of the generator's values each call draws; running them one after the
  other on \<open>rng\<close> gives, over all sequences \<open>rng\<close>, every outcome an interleaving can give.
\<close>

fun simulate_batch ::
  "judgment_oracle \<Rightarrow> (Persona \<times> GeneratedPost) list \<Rightarrow> world \<Rightarrow> SimulationResult list \<times> world" where
  "simulate_batch judge [] w = ([], w)"
| "simulate_batch judge ((persona, post) # rest) w =
     (let (r, w1) = simulateReaction judge persona post w;
          (rs, w2) = simulate_batch judge rest w1
      in (r # rs, w2))"

text \<open>\<^verbatim>\<open>[...new Set(xs)]\<close>: the first occurrence of every value, in order.\<close>

definition unique :: "'a list \<Rightarrow> 'a list" where
  "unique xs = rev (remdups (rev xs))"

fun join :: "string \<Rightarrow> string list \<Rightarrow> string" where
  "join sep [] = []"
| "join sep [x] = x"
| "join sep (x # y # ys) = x @ sep @ join sep (y # ys)"

definition personaDetails :: "Persona list \<Rightarrow> (Persona \<times> GeneratedPost) list \<Rightarrow> string" where
  "personaDetails personaList batch =
     join '', ''
       (map (\<lambda>nm. case find (\<lambda>pl. name pl = nm) personaList of
                     Some p \<Rightarrow> nm @ '' ('' @ title p @ '')''
                   | None \<Rightarrow> nm)
            (unique (map (\<lambda>p. name (fst p)) batch)))"

definition reaction_message ::
  "Persona list \<Rightarrow> GeneratedPost list \<Rightarrow> SimulationResult \<Rightarrow> message" where
  "reaction_message personaList posts r =
     (let persona = find (\<lambda>p. persona_id p = personaId r) personaList;
          post = find (\<lambda>p. post_id p = postId r) posts;
          actions = (if liked r then [''liked''] else [])
                  @ (if commented r then [''commented''] else [])
                  @ (if shared r then [''shared''] else [])
      in Reacted
           (case persona of None \<Rightarrow> ''Someone''
            | Some p \<Rightarrow> if name p = [] then ''Someone'' else name p)
           actions
           (case post of None \<Rightarrow> None
            | Some q \<Rightarrow> if variationNumber q = 0 then None else Some (variationNumber q)))"

definition report_batch ::
  "progress_callback \<Rightarrow> Persona list \<Rightarrow> GeneratedPost list \<Rightarrow> SimulationResult list \<Rightarrow>
   nat \<Rightarrow> nat \<Rightarrow> world \<Rightarrow> world" where
  "report_batch onProgress personaList posts batchResults i total_pairs w =
     (let engaged = filter (\<lambda>r. liked r \<or> commented r \<or> shared r) batchResults;
          scrolledPast = filter (\<lambda>r. \<not> liked r \<and> \<not> commented r \<and> \<not> shared r) batchResults;
          w1 = (if length scrolledPast > 0 \<and> length engaged = 0
                then onProgress (AllScrolledPast (length scrolledPast)) w
                else if length engaged > 0
                then fold (\<lambda>r. onProgress (reaction_message personaList posts r)) engaged w
                else w);
          completed = min (i + BATCH_SIZE) total_pairs
      in onProgress (ReactionsSimulated completed total_pairs) w1)"

text \<open>The loop \<^verbatim>\<open>for (let i = 0; i < pairs.length; i += BATCH_SIZE)\<close>.\<close>

function batch_loop ::
  "judgment_oracle \<Rightarrow> progress_callback option \<Rightarrow> Persona list \<Rightarrow> GeneratedPost list \<Rightarrow>
   (Persona \<times> GeneratedPost) list \<Rightarrow> nat \<Rightarrow> SimulationResult list \<Rightarrow> world \<Rightarrow>
   SimulationResult list \<times> world" where
  "batch_loop judge onProgress personaList posts pairs i allResults w =
     (if i < length pairs then
        (let batch = take BATCH_SIZE (drop i pairs);
             w1 = (case onProgress of
                     Some cb \<Rightarrow> cb (ScrollingThroughFeed (personaDetails personaList batch)) w
                   | None \<Rightarrow> w);
             (batchResults, w2) = simulate_batch judge batch w1;
             w3 = (case onProgress of
                     Some cb \<Rightarrow> report_batch cb personaList posts batchResults i (length pairs) w2
                   | None \<Rightarrow> w2)
         in batch_loop judge onProgress personaList posts pairs (i + BATCH_SIZE)
              (allResults @ batchResults) w3)
      else (allResults, w))"
  by pat_completeness auto
termination
  by (relation "measure (\<lambda>(judge, onProgress, personaList, posts, pairs, i, allResults, w).
        length pairs - i)") (auto simp: BATCH_SIZE_def)

declare batch_loop.simps [simp del]

definition runFullSimulation ::
  "judgment_oracle \<Rightarrow> Persona list \<Rightarrow> GeneratedPost list \<Rightarrow> progress_callback option \<Rightarrow>
   world \<Rightarrow> SimulationResult list \<times> world" where
  "runFullSimulation judge personaList posts onProgress w =
     batch_loop judge onProgress personaList posts (build_pairs personaList posts) 0 [] w"

section \<open>The repositories\<close>

text \<open>
  The queries the worker and the results endpoint issue, on the tables as lists; the order
  of a list is the order in which the database returns the rows. \<open>getByPostId\<close> is the
  inner join of the simulations of a post with the personas table.
\<close>

definition personas_getByUserId :: "string \<Rightarrow> world \<Rightarrow> Persona list" where
  "personas_getByUserId userId w = filter (\<lambda>p. persona_userId p = userId) (personas_table w)"

text \<open>The posts query has \<^verbatim>\<open>.orderBy(generatedPosts.variationNumber)\<close>; rows of the same
  variation number stay in the order of the table.\<close>

definition posts_getByUserId :: "string \<Rightarrow> world \<Rightarrow> GeneratedPost list" where
  "posts_getByUserId userId w =
     sort_key variationNumber (filter (\<lambda>p. post_userId p = userId) (posts_table w))"

definition getByPostId :: "string \<Rightarrow> world \<Rightarrow> SimulationResult list" where
  "getByPostId i w =
     concat (map (\<lambda>s. map (\<lambda>p. s) (filter (\<lambda>p. persona_id p = personaId s) (personas_table w)))
               (filter (\<lambda>s. postId s = i) (post_simulations w)))"

definition createBulk :: "SimulationResult list \<Rightarrow> world \<Rightarrow> world" where
  "createBulk sims w = w\<lparr>post_simulations := post_simulations w @ sims\<rparr>"

record PostEngagementSummary =
  summary_postId :: string
  totalLikes :: int
  totalShares :: int
  totalComments :: int
  totalEngagementScore :: int
  simulationCount :: int

definition getEngagementByUserId :: "string \<Rightarrow> world \<Rightarrow> PostEngagementSummary list" where
  "getEngagementByUserId userId w =
     (let rows = concat (map (\<lambda>s. map (\<lambda>g. s)
                    (filter (\<lambda>g. post_id g = postId s \<and> post_userId g = userId) (posts_table w)))
                  (post_simulations w))
      in map (\<lambda>i. let grp = filter (\<lambda>s. postId s = i) rows
                   in \<lparr>summary_postId = i,
                       totalLikes = int (length (filter liked grp)),
                       totalShares = int (length (filter shared grp)),
                       totalComments = int (length (filter commented grp)),
                       totalEngagementScore = sum_list (map engagementScore grp),
                       simulationCount = int (length grp)\<rparr>)
             (unique (map postId rows)))"

section \<open>The simulation worker\<close>

datatype job_error = NoPersonasFound | NoGeneratedPostsFound

definition updateLog :: "message \<Rightarrow> world \<Rightarrow> world" where
  "updateLog m w = w\<lparr>simulationActivityLog := simulationActivityLog w @ [m]\<rparr>"

text \<open>The loop that splits the posts by whether \<open>getByPostId\<close> finds a row for them.\<close>

definition postsNeedingSimulation :: "GeneratedPost list \<Rightarrow> world \<Rightarrow> GeneratedPost list" where
  "postsNeedingSimulation allPosts w =
     filter (\<lambda>p. \<not> length (getByPostId (post_id p) w) > 0) allPosts"

definition postsAlreadySimulated :: "GeneratedPost list \<Rightarrow> world \<Rightarrow> GeneratedPost list" where
  "postsAlreadySimulated allPosts w =
     filter (\<lambda>p. length (getByPostId (post_id p) w) > 0) allPosts"

definition allSimResults :: "GeneratedPost list \<Rightarrow> world \<Rightarrow> SimulationResult list" where
  "allSimResults allPosts w = concat (map (\<lambda>p. getByPostId (post_id p) w) allPosts)"

text \<open>\<^verbatim>\<open>postScores.set(r.postId, (postScores.get(r.postId) || 0) + r.engagementScore)\<close> on a
  \<^verbatim>\<open>Map\<close>, which keeps its keys in the order of their first insertion.\<close>

definition add_score :: "SimulationResult \<Rightarrow> (string \<times> int) list \<Rightarrow> (string \<times> int) list" where
  "add_score r m =
     AList.update (postId r)
       ((case map_of m (postId r) of Some s \<Rightarrow> s | None \<Rightarrow> 0) + engagementScore r) m"

definition postScores :: "SimulationResult list \<Rightarrow> (string \<times> int) list" where
  "postScores rs = fold add_score rs []"

text \<open>The loop over the entries of \<open>postScores\<close> that keeps the strictly highest score.\<close>

fun highest :: "(string \<times> int) list \<Rightarrow> string \<times> int \<Rightarrow> string \<times> int" where
  "highest [] (winningPostId, highestScore) = (winningPostId, highestScore)"
| "highest ((i, score) # rest) (winningPostId, highestScore) =
     (if score > highestScore then highest rest (i, score)
      else highest rest (winningPostId, highestScore))"

definition winningPost :: "GeneratedPost list \<Rightarrow> world \<Rightarrow> GeneratedPost option" where
  "winningPost allPosts w =
     (let (winningPostId, highestScore) = highest (postScores (allSimResults allPosts w)) ([], -1)
      in find (\<lambda>p. post_id p = winningPostId) allPosts)"

definition final_summary :: "GeneratedPost list \<Rightarrow> GeneratedPost list \<Rightarrow> world \<Rightarrow> world" where
  "final_summary allPosts already w =
     (let rs = allSimResults allPosts w;
          totalLikes = length (filter liked rs);
          totalShares = length (filter shared rs);
          totalComments = length (filter commented rs);
          totalScrolled = length (filter (\<lambda>r. \<not> liked r \<and> \<not> shared r \<and> \<not> commented r) rs);
          totalReactions = length rs;
          w1 = updateLog (FocusGroupComplete totalReactions totalScrolled totalLikes
                            totalComments totalShares) w
      in case winningPost allPosts w1 of
           Some p \<Rightarrow>
             updateLog (TopPerformer
               (if variationNumber p = 1 \<and> length already > 0
                then YourOriginalPost else Variation (variationNumber p))) w1
         | None \<Rightarrow> w1)"

text \<open>
  The job handler of \<^verbatim>\<open>startSimulationWorker\<close>. An error thrown inside the \<^verbatim>\<open>try\<close>
  sets the status to error and is thrown again: the result is \<open>Inl\<close> with the world it
  leaves behind.
\<close>

definition simulation_job ::
  "judgment_oracle \<Rightarrow> string \<Rightarrow> world \<Rightarrow> (job_error \<times> world) + world" where
  "simulation_job judge userId w =
     (let w0 = w\<lparr>simulationStatus := ''simulating'', simulationActivityLog := [AssemblingPanel]\<rparr>;
          personaList = personas_getByUserId userId w0;
          allPosts = posts_getByUserId userId w0
      in if length personaList = 0 then Inl (NoPersonasFound, w0\<lparr>simulationStatus := ''error''\<rparr>)
         else if length allPosts = 0
         then Inl (NoGeneratedPostsFound, w0\<lparr>simulationStatus := ''error''\<rparr>)
         else
           (let posts = postsNeedingSimulation allPosts w0;
                already = postsAlreadySimulated allPosts w0;
                w3 = (if length posts > 0 then
                        (let w1 = (if length already > 0
                                   then updateLog (AlreadyTested (length already) (length posts)
                                                     (length personaList)) w0
                                   else updateLog (FocusGroupReady (length personaList)
                                                     (length posts)) w0);
                             (results, w2) = runFullSimulation judge personaList posts
                                               (Some updateLog) w1
                         in createBulk results w2)
                      else updateLog AllPostsHaveResults w0);
                w4 = final_summary allPosts already w3
            in Inr (w4\<lparr>simulationStatus := ''complete'', onboardingStep := 7\<rparr>)))"

definition world_after :: "(job_error \<times> world) + world \<Rightarrow> world" where
  "world_after res = (case res of Inl (e, w) \<Rightarrow> w | Inr w \<Rightarrow> w)"

section \<open>The results endpoint\<close>

record PostResult =
  result_post :: GeneratedPost
  simulations :: "SimulationResult list"
  engagement :: PostEngagementSummary

text \<open>
  The comparator of \<^verbatim>\<open>postResults.sort\<close>. The two rates are quotients of counts; they are
  kept exact here (binary64 division rounds the exact quotient, which keeps the order and
  the equality of two such quotients for any counts below \<open>2 ^ 26\<close>).
\<close>

definition engRate :: "SimulationResult list \<Rightarrow> rat" where
  "engRate sims =
     (let aTotal = (if length sims = 0 then 1 else length sims);
          aScrolled = length (filter (\<lambda>s. \<not> liked s \<and> \<not> shared s \<and> \<not> commented s) sims)
      in (of_nat aTotal - of_nat aScrolled) / of_nat aTotal)"

definition compare_results :: "PostResult \<Rightarrow> PostResult \<Rightarrow> rat" where
  "compare_results a b =
     (let aEngRate = engRate (simulations a); bEngRate = engRate (simulations b)
      in if bEngRate \<noteq> aEngRate then bEngRate - aEngRate
         else of_int (totalEngagementScore (engagement b) - totalEngagementScore (engagement a)))"

text \<open>
  \<^verbatim>\<open>Array.prototype.sort(cmp)\<close> is stable; for a comparator that is a consistent ordering
  its result is the one rearrangement that puts \<open>a\<close> before \<open>b\<close> only if \<open>cmp a b \<le> 0\<close>
  and keeps the input order of elements that compare equal. Insertion from the right
  computes it.
\<close>

fun insert_by :: "('a \<Rightarrow> 'a \<Rightarrow> rat) \<Rightarrow> 'a \<Rightarrow> 'a list \<Rightarrow> 'a list" where
  "insert_by cmp x [] = [x]"
| "insert_by cmp x (y # ys) = (if cmp x y \<le> 0 then x # y # ys else y # insert_by cmp x ys)"

definition Array_sort :: "('a \<Rightarrow> 'a \<Rightarrow> rat) \<Rightarrow> 'a list \<Rightarrow> 'a list" where
  "Array_sort cmp xs = foldr (insert_by cmp) xs []"

definition no_engagement :: "string \<Rightarrow> PostEngagementSummary" where
  "no_engagement i =
     \<lparr>summary_postId = i, totalLikes = 0, totalShares = 0, totalComments = 0,
      totalEngagementScore = 0, simulationCount = 0\<rparr>"

definition getSimulationResults :: "string \<Rightarrow> world \<Rightarrow> PostResult list" where
  "getSimulationResults userId w =
     (let posts = posts_getByUserId userId w;
          engagementSummaries = getEngagementByUserId userId w;
          postResults =
            map (\<lambda>p. \<lparr>result_post = p,
                       simulations = getByPostId (post_id p) w,
                       engagement =
                         (case find (\<lambda>e. summary_postId e = post_id p) engagementSummaries of
                            Some e \<Rightarrow> e
                          | None \<Rightarrow> no_engagement (post_id p))\<rparr>) posts
      in Array_sort compare_results postResults)"

section \<open>Specification predicates\<close>

text \<open>\<open>r\<close> is what simulateReaction returns for the pair, from some state of the world.\<close>

definition produced_by ::
  "judgment_oracle \<Rightarrow> Persona \<times> GeneratedPost \<Rightarrow> SimulationResult \<Rightarrow> bool" where
  "produced_by judge pq r = (\<exists>w. r = fst (simulateReaction judge (fst pq) (snd pq) w))"

text \<open>The pair has a persisted result.\<close>

definition has_result :: "Persona \<Rightarrow> GeneratedPost \<Rightarrow> world \<Rightarrow> bool" where
  "has_result persona post w =
     list_ex (\<lambda>s. personaId s = persona_id persona \<and> postId s = post_id post) (post_simulations w)"

text \<open>The sum of the scores of the persisted results of a post; the value a map of scores
  holds for a key, 0 when absent.\<close>

definition totalScore :: "string \<Rightarrow> world \<Rightarrow> int" where
  "totalScore i w = sum_list (map engagementScore (getByPostId i w))"

definition score_in :: "(string \<times> int) list \<Rightarrow> string \<Rightarrow> int" where
  "score_in m k = (case map_of m k of Some s \<Rightarrow> s | None \<Rightarrow> 0)"

section \<open>Fixtures\<close>

text \<open>A panelist of each behavior type, a post, a model that says yes to everything, a
  model whose reply for one post is not JSON, and a generator that only returns 0.\<close>

definition panelist :: "string \<Rightarrow> string \<Rightarrow> Persona" where
  "panelist i behavior =
     \<lparr>persona_id = i, persona_userId = ''u1'', name = ''Ada'', title = ''CTO'',
      socialBehavior = behavior\<rparr>"

definition variation :: "string \<Rightarrow> int \<Rightarrow> GeneratedPost" where
  "variation i n =
     \<lparr>post_id = i, post_userId = ''u1'', variationNumber = n, platform = ''LinkedIn'',
      content = ''Hello''\<rparr>"

definition yes_to_all :: parsed where
  "yes_to_all =
     \<lparr>parsed_stoppedScrolling = JBool True, parsed_liked = JBool True,
      parsed_shared = JBool True, parsed_commented = JBool True,
      parsed_commentText = Some ''Nice'', parsed_reasoning = Some ''Relevant''\<rparr>"

definition always_yes :: judgment_oracle where
  "always_yes persona post = Parsed yes_to_all"

definition fails_on :: "string \<Rightarrow> judgment_oracle" where
  "fails_on i persona post = (if post_id post = i then Unparseable else Parsed yes_to_all)"

definition idle_world :: world where
  "idle_world =
     \<lparr>rng = (\<lambda>n. 0), oracle_calls = [], personas_table = [], posts_table = [],
      post_simulations = [], simulationStatus = ''pending'', simulationActivityLog = [],
      onboardingStep = 6\<rparr>"



text \<open>Two panelists and two posts of user u1. In \<open>regeneration_world\<close> only the first
  post has been simulated (one share, one scroll past); in \<open>settled_world\<close> the second has
  too (two likes).\<close>

definition reaction :: "string \<Rightarrow> string \<Rightarrow> bool \<Rightarrow> bool \<Rightarrow> bool \<Rightarrow> SimulationResult" where
  "reaction p g l c s =
     \<lparr>personaId = p, postId = g, liked = l, shared = s, commented = c, commentText = None,
      reasoning = ''r'', engagementScore = of_bool l + 3 * of_bool c + 5 * of_bool s\<rparr>"

definition regeneration_world :: world where
  "regeneration_world =
     idle_world\<lparr>personas_table := [panelist ''p1'' ''lurker'', panelist ''p2'' ''power_sharer''],
                posts_table := [variation ''g1'' 1, variation ''g2'' 2],
                post_simulations := [reaction ''p1'' ''g1'' False False True,
                                     reaction ''p2'' ''g1'' False False False]\<rparr>"

definition settled_world :: world where
  "settled_world =
     regeneration_world\<lparr>post_simulations := post_simulations regeneration_world @
                           [reaction ''p1'' ''g2'' True False False,
                            reaction ''p2'' ''g2'' True False False]\<rparr>"

text \<open>The same panel and posts, the other way round: the first post has two likes, the
  second one share and one scroll past.\<close>

definition contested_world :: world where
  "contested_world =
     regeneration_world\<lparr>post_simulations := [reaction ''p1'' ''g1'' True False False,
                                              reaction ''p2'' ''g1'' True False False,
                                              reaction ''p1'' ''g2'' False False True,
                                              reaction ''p2'' ''g2'' False False False]\<rparr>"

section \<open>The calibration table\<close>

text \<open>
  C8. In the table as written, from lurker to casual_engager to active_commenter to
  power_sharer each of the four rates is non-decreasing, and in every row the comment rate
  and the share rate are strictly below the like rate.
\<close>

theorem probability_gates_monotone:
  "map fst PROBABILITY_GATES =
      [''lurker'', ''casual_engager'', ''active_commenter'', ''power_sharer'']
   \<and> sorted (map (stopRate \<circ> snd) PROBABILITY_GATES)
   \<and> sorted (map (likeRate \<circ> snd) PROBABILITY_GATES)
   \<and> sorted (map (commentRate \<circ> snd) PROBABILITY_GATES)
   \<and> sorted (map (shareRate \<circ> snd) PROBABILITY_GATES)
   \<and> list_all (\<lambda>g. commentRate g < likeRate g \<and> shareRate g < likeRate g)
        (map snd PROBABILITY_GATES)"
  by (simp add: PROBABILITY_GATES_def binary64_literals)

section \<open>The gates of simulateReaction\<close>

lemma gate_fst: "fst (gate flag rate gs w) = (flag \<and> below (rng w 0) rate gs)"
  by (simp add: gate_def Math_random_def)

lemma gate_rng: "rng (snd (gate flag rate gs w)) = (\<lambda>n. rng w (n + (if flag then 1 else 0)))"
  by (simp add: gate_def Math_random_def)

lemma gated_reaction_liked:
  "liked (fst (gated_reaction persona post v w)) =
     ((Boolean (parsed_stoppedScrolling v)
        \<and> below (rng w 0) stopRate (lookup_gates (socialBehavior persona)))
      \<and> Boolean (parsed_liked v)
      \<and> below (rng w 1) likeRate (lookup_gates (socialBehavior persona)))"
  by (simp add: gated_reaction_def Let_def case_prod_beta gate_fst gate_rng)

lemma gated_reaction_commented:
  "commented (fst (gated_reaction persona post v w)) =
     ((Boolean (parsed_stoppedScrolling v)
        \<and> below (rng w 0) stopRate (lookup_gates (socialBehavior persona)))
      \<and> Boolean (parsed_commented v)
      \<and> below (rng w (1 + (if Boolean (parsed_liked v) then 1 else 0))) commentRate
           (lookup_gates (socialBehavior persona)))"
  by (simp add: gated_reaction_def Let_def case_prod_beta gate_fst gate_rng)

lemma gated_reaction_shared:
  "shared (fst (gated_reaction persona post v w)) =
     ((Boolean (parsed_stoppedScrolling v)
        \<and> below (rng w 0) stopRate (lookup_gates (socialBehavior persona)))
      \<and> Boolean (parsed_shared v)
      \<and> below (rng w (1 + (if Boolean (parsed_liked v) then 1 else 0)
                        + (if Boolean (parsed_commented v) then 1 else 0))) shareRate
           (lookup_gates (socialBehavior persona)))"
  by (simp add: gated_reaction_def Let_def case_prod_beta gate_fst gate_rng)

lemma gated_reaction_score:
  "engagementScore (fst (gated_reaction persona post v w)) =
     of_bool (liked (fst (gated_reaction persona post v w)))
     + 3 * of_bool (commented (fst (gated_reaction persona post v w)))
     + 5 * of_bool (shared (fst (gated_reaction persona post v w)))"
  by (simp add: gated_reaction_def Let_def case_prod_beta)

lemma gated_reaction_ids:
  "personaId (fst (gated_reaction persona post v w)) = persona_id persona"
  "postId (fst (gated_reaction persona post v w)) = post_id post"
  by (simp_all add: gated_reaction_def Let_def case_prod_beta)

text \<open>The rates found for a behavior type: its own row, else the casual_engager row.\<close>

lemma lookup_gates_own:
  "map_of PROBABILITY_GATES behavior = Some g \<Longrightarrow> lookup_gates behavior = Rates g"
  by (simp add: lookup_gates_def)

lemma lookup_gates_fallback:
  "behavior \<notin> set (map fst PROBABILITY_GATES) \<Longrightarrow> behavior \<notin> set Object_prototype_keys \<Longrightarrow>
   lookup_gates behavior = Rates casual_engager"
  by (simp add: lookup_gates_def map_of_eq_None_iff [THEN iffD2])



text \<open>
  C6. Scroll-gate dominance: when the verdict's stoppedScrolling is false (or any other
  falsy value), liked, commented and shared are false and the score is 0, whatever the
  other flags and the draws are.
\<close>

theorem scroll_gate_dominance:
  assumes "judge persona post = Parsed v" and "\<not> Boolean (parsed_stoppedScrolling v)"
  shows "(let r = fst (simulateReaction judge persona post w)
          in \<not> liked r \<and> \<not> commented r \<and> \<not> shared r \<and> engagementScore r = 0)"
  unfolding Let_def simulateReaction_def assms(1) llm_reply.case
  using assms(2)
  by (simp add: gated_reaction_liked gated_reaction_commented gated_reaction_shared
      gated_reaction_score)

theorem scroll_gate_dominance_witness:
  "(let v = yes_to_all\<lparr>parsed_stoppedScrolling := JBool False\<rparr>;
        r = fst (simulateReaction (\<lambda>persona post. Parsed v) (panelist ''p1'' ''power_sharer'')
                   (variation ''g1'' 1) idle_world)
    in \<not> Boolean (parsed_stoppedScrolling v) \<and> Boolean (parsed_liked v)
       \<and> \<not> liked r \<and> \<not> commented r \<and> \<not> shared r \<and> engagementScore r = 0)"
  using scroll_gate_dominance
    [of "\<lambda>persona post. Parsed (yes_to_all\<lparr>parsed_stoppedScrolling := JBool False\<rparr>)"
        "panelist ''p1'' ''power_sharer''" "variation ''g1'' 1"
        "yes_to_all\<lparr>parsed_stoppedScrolling := JBool False\<rparr>" idle_world]
  by (simp add: yes_to_all_def Let_def)

text \<open>
  C7. The score of every result of simulateReaction is 1 for a like, plus 3 for a comment,
  plus 5 for a share; and each of the eight combinations of the three booleans is the
  result of some call.
\<close>

theorem simulateReaction_score:
  "(let r = fst (simulateReaction judge persona post w)
    in engagementScore r = of_bool (liked r) + 3 * of_bool (commented r) + 5 * of_bool (shared r))
   \<and> (\<forall>a b c. \<exists>judge' persona' post' w'.
        let r = fst (simulateReaction judge' persona' post' w')
        in liked r = a \<and> commented r = b \<and> shared r = c
           \<and> engagementScore r = of_bool a + 3 * of_bool b + 5 * of_bool c)"
proof
  show "let r = fst (simulateReaction judge persona post w)
    in engagementScore r = of_bool (liked r) + 3 * of_bool (commented r) + 5 * of_bool (shared r)"
    by (cases "judge persona post")
       (simp_all add: simulateReaction_def gated_reaction_score could_not_complete_def Let_def)
next
  show "\<forall>a b c. \<exists>judge' persona' post' w'.
        let r = fst (simulateReaction judge' persona' post' w')
        in liked r = a \<and> commented r = b \<and> shared r = c
           \<and> engagementScore r = of_bool a + 3 * of_bool b + 5 * of_bool c"
  proof (intro allI)
    fix a b c
    let ?v = "yes_to_all\<lparr>parsed_liked := JBool a, parsed_commented := JBool b,
                parsed_shared := JBool c\<rparr>"
    let ?r = "fst (simulateReaction (\<lambda>persona post. Parsed ?v) (panelist ''p1'' ''lurker'')
                (variation ''g1'' 1) idle_world)"
    have g: "lookup_gates ''lurker'' =
       Rates \<lparr>stopRate = d_0_30, likeRate = d_0_50, commentRate = d_0_08, shareRate = d_0_02\<rparr>"
      by (simp add: lookup_gates_def PROBABILITY_GATES_def)
    have "liked ?r = a \<and> commented ?r = b \<and> shared ?r = c"
      by (simp add: simulateReaction_def gated_reaction_liked gated_reaction_commented
          gated_reaction_shared yes_to_all_def panelist_def idle_world_def g binary64_literals)
    moreover have "engagementScore ?r =
        of_bool (liked ?r) + 3 * of_bool (commented ?r) + 5 * of_bool (shared ?r)"
      by (simp add: simulateReaction_def gated_reaction_score)
    ultimately have main: "let r = ?r
        in liked r = a \<and> commented r = b \<and> shared r = c
           \<and> engagementScore r = of_bool a + 3 * of_bool b + 5 * of_bool c"
      by (simp add: Let_def)
    show "\<exists>judge' persona' post' w'.
        let r = fst (simulateReaction judge' persona' post' w')
        in liked r = a \<and> commented r = b \<and> shared r = c
           \<and> engagementScore r = of_bool a + 3 * of_bool b + 5 * of_bool c"
      by (rule exI [of _ "\<lambda>persona post. Parsed ?v"], rule exI [of _ "panelist ''p1'' ''lurker''"],
          rule exI [of _ "variation ''g1'' 1"], rule exI [of _ idle_world]) (rule main)
  qed
qed

section \<open>Batched execution\<close>

lemma simulateReaction_ids:
  "personaId (fst (simulateReaction judge persona post w)) = persona_id persona"
  "postId (fst (simulateReaction judge persona post w)) = post_id post"
  by (cases "judge persona post";
      simp add: simulateReaction_def gated_reaction_ids could_not_complete_def)+

lemma simulate_batch_produced:
  "list_all2 (produced_by judge) batch (fst (simulate_batch judge batch w))"
proof (induction batch arbitrary: w)
  case Nil
  show ?case by simp
next
  case (Cons pq batch)
  obtain persona post where pq: "pq = (persona, post)" by (cases pq)
  have "produced_by judge pq (fst (simulateReaction judge persona post w))"
    unfolding produced_by_def pq by auto
  with Cons.IH show ?case
    by (simp add: pq case_prod_beta Let_def)
qed

lemma batch_loop_produced:
  "\<exists>rs. fst (batch_loop judge onProgress personaList posts pairs i allResults w) = allResults @ rs
        \<and> list_all2 (produced_by judge) (drop i pairs) rs"
proof (induction judge onProgress personaList posts pairs i allResults w rule: batch_loop.induct)
  case (1 judge onProgress personaList posts pairs i allResults w)
  show ?case
  proof (cases "i < length pairs")
    case False
    then show ?thesis by (simp add: batch_loop.simps)
  next
    case True
    define batch where "batch = take BATCH_SIZE (drop i pairs)"
    define w1 where "w1 = (case onProgress of
                     Some cb \<Rightarrow> cb (ScrollingThroughFeed (personaDetails personaList batch)) w
                   | None \<Rightarrow> w)"
    obtain batchResults w2 where sb: "simulate_batch judge batch w1 = (batchResults, w2)"
      by (cases "simulate_batch judge batch w1")
    define w3 where "w3 = (case onProgress of
                     Some cb \<Rightarrow> report_batch cb personaList posts batchResults i (length pairs) w2
                   | None \<Rightarrow> w2)"
    have step: "batch_loop judge onProgress personaList posts pairs i allResults w =
       batch_loop judge onProgress personaList posts pairs (i + BATCH_SIZE) (allResults @ batchResults) w3"
      using True sb
      by (subst batch_loop.simps) (simp add: batch_def [symmetric] w1_def [symmetric] w3_def [symmetric])
    from "1.IH" [OF True batch_def w1_def sb [symmetric] refl w3_def]
    obtain rs where rs: "fst (batch_loop judge onProgress personaList posts pairs (i + BATCH_SIZE)
                              (allResults @ batchResults) w3) = (allResults @ batchResults) @ rs"
      and rel: "list_all2 (produced_by judge) (drop (i + BATCH_SIZE) pairs) rs"
      by blast
    have "list_all2 (produced_by judge) batch batchResults"
      using simulate_batch_produced [of judge batch w1] sb by simp
    with rel have "list_all2 (produced_by judge) (batch @ drop (i + BATCH_SIZE) pairs) (batchResults @ rs)"
      by (simp add: list_all2_appendI)
    moreover have "batch @ drop (i + BATCH_SIZE) pairs = drop i pairs"
      by (simp add: batch_def add.commute [of i] flip: drop_drop)
    ultimately show ?thesis
      using rs step by auto
  qed
qed

lemma runFullSimulation_produced:
  "list_all2 (produced_by judge) (build_pairs personaList posts)
     (fst (runFullSimulation judge personaList posts onProgress w))"
  using batch_loop_produced [of judge onProgress personaList posts "build_pairs personaList posts" 0 "[]" w]
  by (auto simp: runFullSimulation_def)

lemma length_build_pairs: "length (build_pairs personaList posts) = length personaList * length posts"
  by (induction personaList) (simp_all add: build_pairs_def)

lemma produced_by_ids:
  "list_all2 (produced_by judge) pairs rs \<Longrightarrow>
   map (\<lambda>r. (personaId r, postId r)) rs = map (\<lambda>(persona, post). (persona_id persona, post_id post)) pairs"
  by (induction rule: list_all2_induct)
     (auto simp: produced_by_def simulateReaction_ids)

lemma simulateReaction_failure:
  assumes "judge persona post \<in> {CallFails, Unparseable, ParsedNull}"
  shows "fst (simulateReaction judge persona post w) = could_not_complete persona post"
  using assms by (auto simp: simulateReaction_def)

text \<open>
  C9. For every list of personas and of posts, whatever the model answers and with or
  without a progress callback, runFullSimulation returns as many results as there are
  personas times posts, and the i-th result carries the persona id and the post id of the
  i-th pair of the persona-major, post-minor cross product.
\<close>

theorem runFullSimulation_one_result_per_pair:
  "(let results = fst (runFullSimulation judge personaList posts onProgress w)
    in length results = length personaList * length posts
     \<and> map (\<lambda>r. (personaId r, postId r)) results =
         map (\<lambda>(persona, post). (persona_id persona, post_id post))
           (concat (map (\<lambda>persona. map (\<lambda>post. (persona, post)) posts) personaList)))"
  using runFullSimulation_produced [of judge personaList posts onProgress w]
  by (auto simp: Let_def produced_by_ids length_build_pairs [symmetric] build_pairs_def [symmetric]
      dest: list_all2_lengthD)


text \<open>
  C10. With no personas, or with no posts, runFullSimulation returns the empty list and
  leaves the world as it was, for every callback and every model: no request is recorded
  and the callback is never run.
\<close>

theorem runFullSimulation_empty_input:
  "runFullSimulation judge [] posts onProgress w = ([], w)
   \<and> runFullSimulation judge personaList [] onProgress w = ([], w)"
  by (simp add: runFullSimulation_def build_pairs_def batch_loop.simps)

text \<open>
  C5. When the request for a pair fails, or the reply is not JSON (or is the JSON value
  null), simulateReaction returns the fixed negative result for that pair: nothing liked,
  shared or commented, no comment text, the reasoning "Simulation could not be completed"
  and score 0. A batched run over lists that contain such a pair returns (every function
  of the model is total) a list with one result per pair, and the result at the position
  of the failing pair is that negative result.
\<close>

theorem oracle_failure_default:
  assumes "judge persona post \<in> {CallFails, Unparseable, ParsedNull}"
  shows "fst (simulateReaction judge persona post w) =
           \<lparr>personaId = persona_id persona, postId = post_id post,
            liked = False, shared = False, commented = False, commentText = None,
            reasoning = ''Simulation could not be completed'', engagementScore = 0\<rparr>
       \<and> (let pairs = concat (map (\<lambda>persona. map (\<lambda>post. (persona, post)) posts) personaList);
               results = fst (runFullSimulation judge personaList posts onProgress w')
           in length results = length pairs
            \<and> (\<forall>i < length pairs. pairs ! i = (persona, post) \<longrightarrow>
                  results ! i =
                    \<lparr>personaId = persona_id persona, postId = post_id post,
                     liked = False, shared = False, commented = False, commentText = None,
                     reasoning = ''Simulation could not be completed'', engagementScore = 0\<rparr>))"
proof -
  let ?pairs = "build_pairs personaList posts"
  let ?results = "fst (runFullSimulation judge personaList posts onProgress w')"
  have rel: "list_all2 (produced_by judge) ?pairs ?results"
    by (rule runFullSimulation_produced)
  have len: "length ?results = length ?pairs"
    using rel by (simp add: list_all2_lengthD)
  have each: "?results ! i = could_not_complete persona post"
    if "i < length ?pairs" "?pairs ! i = (persona, post)" for i
  proof -
    from rel that(1) have "produced_by judge (?pairs ! i) (?results ! i)"
      by (rule list_all2_nthD)
    then show ?thesis
      unfolding produced_by_def that(2)
      using simulateReaction_failure [where judge = judge and persona = persona and post = post, OF assms]
      by auto
  qed
  show ?thesis
    using simulateReaction_failure
        [where judge = judge and persona = persona and post = post and w = w, OF assms] len each
    by (simp add: Let_def could_not_complete_def build_pairs_def)
qed

theorem oracle_failure_default_witness:
  "fails_on ''g1'' (panelist ''p1'' ''lurker'') (variation ''g1'' 1) \<in> {CallFails, Unparseable, ParsedNull}
   \<and> (let results = fst (runFullSimulation (fails_on ''g1'') [panelist ''p1'' ''lurker'']
                          [variation ''g1'' 1, variation ''g2'' 2] None idle_world)
      in length results = 2
       \<and> reasoning (results ! 0) = ''Simulation could not be completed''
       \<and> engagementScore (results ! 0) = 0)"
proof -
  have h: "fails_on ''g1'' (panelist ''p1'' ''lurker'') (variation ''g1'' 1)
             \<in> {CallFails, Unparseable, ParsedNull}"
    by (simp add: fails_on_def variation_def)
  from oracle_failure_default
      [where judge = "fails_on ''g1''" and persona = "panelist ''p1'' ''lurker''"
         and post = "variation ''g1'' 1" and w = idle_world and w' = idle_world
         and posts = "[variation ''g1'' 1, variation ''g2'' 2]"
         and personaList = "[panelist ''p1'' ''lurker'']" and onProgress = None, OF h]
  show ?thesis
    using h by (simp add: Let_def)
qed

section \<open>The worker skips what is already simulated\<close>

lemma gate_oracle_calls: "oracle_calls (snd (gate flag rate gs w)) = oracle_calls w"
  by (simp add: gate_def Math_random_def)

lemma gated_reaction_oracle_calls:
  "oracle_calls (snd (gated_reaction persona post v w)) = oracle_calls w"
  by (simp add: gated_reaction_def Let_def case_prod_beta gate_oracle_calls)

lemma simulateReaction_oracle_calls:
  "oracle_calls (snd (simulateReaction judge persona post w)) = oracle_calls w @ [(persona, post)]"
  by (cases "judge persona post")
     (simp_all add: simulateReaction_def gated_reaction_oracle_calls)

lemma simulate_batch_oracle_calls:
  "oracle_calls (snd (simulate_batch judge batch w)) = oracle_calls w @ batch"
proof (induction batch arbitrary: w)
  case Nil
  show ?case by simp
next
  case (Cons pq batch)
  obtain persona post where pq: "pq = (persona, post)" by (cases pq)
  show ?case
    by (simp add: pq case_prod_beta Let_def Cons.IH simulateReaction_oracle_calls)
qed

lemma fold_callback_oracle_calls:
  assumes "\<And>m w. oracle_calls (cb m w) = oracle_calls w"
  shows "oracle_calls (fold (\<lambda>r. cb (f r)) rs w) = oracle_calls w"
  by (induction rs arbitrary: w) (simp_all add: assms)

lemma report_batch_oracle_calls:
  assumes "\<And>m w. oracle_calls (cb m w) = oracle_calls w"
  shows "oracle_calls (report_batch cb personaList posts batchResults i n w) = oracle_calls w"
  by (simp add: report_batch_def Let_def assms fold_callback_oracle_calls [where cb = cb, OF assms])

lemma batch_loop_oracle_calls:
  assumes "\<And>cb m w. onProgress = Some cb \<Longrightarrow> oracle_calls (cb m w) = oracle_calls w"
  shows "oracle_calls (snd (batch_loop judge onProgress personaList posts pairs i allResults w)) =
           oracle_calls w @ drop i pairs"
  using assms
proof (induction judge onProgress personaList posts pairs i allResults w rule: batch_loop.induct)
  case (1 judge onProgress personaList posts pairs i allResults w)
  show ?case
  proof (cases "i < length pairs")
    case False
    then show ?thesis by (simp add: batch_loop.simps)
  next
    case True
    define batch where "batch = take BATCH_SIZE (drop i pairs)"
    define w1 where "w1 = (case onProgress of
                     Some cb \<Rightarrow> cb (ScrollingThroughFeed (personaDetails personaList batch)) w
                   | None \<Rightarrow> w)"
    obtain batchResults w2 where sb: "simulate_batch judge batch w1 = (batchResults, w2)"
      by (cases "simulate_batch judge batch w1")
    define w3 where "w3 = (case onProgress of
                     Some cb \<Rightarrow> report_batch cb personaList posts batchResults i (length pairs) w2
                   | None \<Rightarrow> w2)"
    have step: "batch_loop judge onProgress personaList posts pairs i allResults w =
       batch_loop judge onProgress personaList posts pairs (i + BATCH_SIZE) (allResults @ batchResults) w3"
      using True sb
      by (subst batch_loop.simps) (simp add: batch_def [symmetric] w1_def [symmetric] w3_def [symmetric])
    have c1: "oracle_calls w1 = oracle_calls w"
      unfolding w1_def using "1.prems" by (cases onProgress) simp_all
    have c2: "oracle_calls w2 = oracle_calls w1 @ batch"
      using simulate_batch_oracle_calls [of judge batch w1] sb by simp
    have c3: "oracle_calls w3 = oracle_calls w2"
      unfolding w3_def using "1.prems"
      by (cases onProgress) (simp_all add: report_batch_oracle_calls)
    have "batch @ drop (i + BATCH_SIZE) pairs = drop i pairs"
      by (simp add: batch_def add.commute [of i] flip: drop_drop)
    moreover have "oracle_calls (snd (batch_loop judge onProgress personaList posts pairs
                       (i + BATCH_SIZE) (allResults @ batchResults) w3)) =
                   oracle_calls w3 @ drop (i + BATCH_SIZE) pairs"
      by (rule "1.IH" [OF True batch_def w1_def sb [symmetric] refl w3_def]) (rule "1.prems")
    ultimately show ?thesis
      unfolding step using c1 c2 c3 by simp
  qed
qed

lemma updateLog_fields:
  "oracle_calls (updateLog m w) = oracle_calls w"
  "post_simulations (updateLog m w) = post_simulations w"
  "personas_table (updateLog m w) = personas_table w"
  "posts_table (updateLog m w) = posts_table w"
  by (simp_all add: updateLog_def)

lemma final_summary_fields:
  "oracle_calls (final_summary allPosts already w) = oracle_calls w"
  "post_simulations (final_summary allPosts already w) = post_simulations w"
  by (simp_all add: final_summary_def Let_def updateLog_fields split: option.split)

lemma runFullSimulation_oracle_calls:
  "oracle_calls (snd (runFullSimulation judge personaList posts (Some updateLog) w)) =
     oracle_calls w @ build_pairs personaList posts"
  unfolding runFullSimulation_def
  by (subst batch_loop_oracle_calls) (simp_all add: updateLog_fields)

lemma queries_start [simp]:
  "getByPostId i (w\<lparr>simulationStatus := s, simulationActivityLog := l\<rparr>) = getByPostId i w"
  "personas_getByUserId u (w\<lparr>simulationStatus := s, simulationActivityLog := l\<rparr>) =
     personas_getByUserId u w"
  "posts_getByUserId u (w\<lparr>simulationStatus := s, simulationActivityLog := l\<rparr>) =
     posts_getByUserId u w"
  by (simp_all add: getByPostId_def personas_getByUserId_def posts_getByUserId_def)

lemma simulation_job_oracle_calls:
  "oracle_calls (world_after (simulation_job judge userId w)) =
     oracle_calls w @
       (if personas_getByUserId userId w = [] \<or> posts_getByUserId userId w = [] then []
        else build_pairs (personas_getByUserId userId w)
               (postsNeedingSimulation (posts_getByUserId userId w) w))"
  by (simp add: simulation_job_def world_after_def Let_def case_prod_beta
      postsNeedingSimulation_def postsAlreadySimulated_def createBulk_def
      final_summary_fields updateLog_fields runFullSimulation_oracle_calls build_pairs_def)

lemma simulation_job_nothing_to_simulate:
  assumes "postsNeedingSimulation (posts_getByUserId userId w) w = []"
  shows "post_simulations (world_after (simulation_job judge userId w)) = post_simulations w"
  using assms
  by (simp add: simulation_job_def world_after_def Let_def
      postsNeedingSimulation_def postsAlreadySimulated_def final_summary_fields
      updateLog_fields)

lemma has_result_getByPostId:
  assumes "has_result persona post w" and "persona \<in> set (personas_table w)"
  shows "getByPostId (post_id post) w \<noteq> []"
proof -
  from assms(1) obtain s where s: "s \<in> set (post_simulations w)"
      "personaId s = persona_id persona" "postId s = post_id post"
    by (auto simp: has_result_def list_ex_iff)
  with assms(2) have "s \<in> set (getByPostId (post_id post) w)"
    by (auto simp: getByPostId_def intro!: bexI [of _ s])
  then show ?thesis by auto
qed

text \<open>
  C3. The requests a job issues are only for pairs without a persisted result: every
  pair that has one is left out of the run. When every pair of the user's personas and
  posts has a persisted result, the job issues no request and the table of simulations is
  what it was.
\<close>

theorem skip_already_simulated:
  "(let w' = world_after (simulation_job judge userId w);
        newCalls = drop (length (oracle_calls w)) (oracle_calls w')
    in take (length (oracle_calls w)) (oracle_calls w') = oracle_calls w
     \<and> (\<forall>(persona, post) \<in> set newCalls. \<not> has_result persona post w)
     \<and> ((\<forall>persona \<in> set (personas_getByUserId userId w).
           \<forall>post \<in> set (posts_getByUserId userId w). has_result persona post w)
          \<longrightarrow> newCalls = [] \<and> post_simulations w' = post_simulations w))"
proof -
  let ?pl = "personas_getByUserId userId w"
  let ?all = "posts_getByUserId userId w"
  let ?need = "postsNeedingSimulation ?all w"
  let ?new = "if ?pl = [] \<or> ?all = [] then [] else build_pairs ?pl ?need"
  have calls: "oracle_calls (world_after (simulation_job judge userId w)) = oracle_calls w @ ?new"
    by (rule simulation_job_oracle_calls)
  have fresh: "\<not> has_result persona post w" if "(persona, post) \<in> set ?new" for persona post
  proof
    assume hr: "has_result persona post w"
    from that have "persona \<in> set ?pl" "post \<in> set ?need"
      by (auto simp: build_pairs_def split: if_splits)
    then have "persona \<in> set (personas_table w)" "getByPostId (post_id post) w = []"
      by (auto simp: personas_getByUserId_def postsNeedingSimulation_def)
    with has_result_getByPostId [OF hr] show False by simp
  qed
  have settled: "?new = [] \<and> post_simulations (world_after (simulation_job judge userId w)) = post_simulations w"
    if all: "\<forall>persona \<in> set ?pl. \<forall>post \<in> set ?all. has_result persona post w"
  proof (cases "?pl = []")
    case True
    then show ?thesis
      by (simp add: simulation_job_def world_after_def Let_def)
  next
    case False
    then obtain persona where persona: "persona \<in> set ?pl" by (cases ?pl) auto
    then have tbl: "persona \<in> set (personas_table w)" by (simp add: personas_getByUserId_def)
    have "getByPostId (post_id post) w \<noteq> []" if "post \<in> set ?all" for post
    proof -
      from all persona that have "has_result persona post w" by blast
      then show ?thesis using tbl by (rule has_result_getByPostId)
    qed
    then have need: "?need = []"
      by (auto simp: postsNeedingSimulation_def filter_empty_conv)
    then show ?thesis
      using simulation_job_nothing_to_simulate [OF need] by (simp add: build_pairs_def)
  qed
  show ?thesis
    unfolding Let_def calls using fresh settled by auto
qed

text \<open>
  In \<open>settled_world\<close> every pair has a result and the job asks nothing; in
  \<open>regeneration_world\<close> the two requests are for the post without results.
\<close>

theorem skip_already_simulated_witness:
  "list_all (\<lambda>persona. list_all (\<lambda>post. has_result persona post settled_world)
                         (posts_getByUserId ''u1'' settled_world))
     (personas_getByUserId ''u1'' settled_world)
   \<and> oracle_calls (world_after (simulation_job always_yes ''u1'' settled_world)) = []
   \<and> post_simulations (world_after (simulation_job always_yes ''u1'' settled_world)) =
       post_simulations settled_world
   \<and> oracle_calls (world_after (simulation_job always_yes ''u1'' regeneration_world)) =
       [(panelist ''p1'' ''lurker'', variation ''g2'' 2),
        (panelist ''p2'' ''power_sharer'', variation ''g2'' 2)]
   \<and> \<not> has_result (panelist ''p1'' ''lurker'') (variation ''g2'' 2) regeneration_world"
proof -
  have h: "\<forall>persona \<in> set (personas_getByUserId ''u1'' settled_world).
      \<forall>post \<in> set (posts_getByUserId ''u1'' settled_world). has_result persona post settled_world"
    by code_simp
  have e: "oracle_calls settled_world = []" "oracle_calls regeneration_world = []"
    by code_simp+
  have c: "oracle_calls (world_after (simulation_job always_yes ''u1'' regeneration_world)) =
       [(panelist ''p1'' ''lurker'', variation ''g2'' 2),
        (panelist ''p2'' ''power_sharer'', variation ''g2'' 2)]"
    by code_simp
  from skip_already_simulated [of always_yes "''u1''" settled_world] h e(1)
  have "oracle_calls (world_after (simulation_job always_yes ''u1'' settled_world)) = []
      \<and> post_simulations (world_after (simulation_job always_yes ''u1'' settled_world)) =
         post_simulations settled_world"
    by (simp add: Let_def)
  moreover from skip_already_simulated [of always_yes "''u1''" regeneration_world] e(2) c
  have "\<not> has_result (panelist ''p1'' ''lurker'') (variation ''g2'' 2) regeneration_world"
    by (simp add: Let_def)
  ultimately show ?thesis
    using h c by (simp add: list_all_iff)
qed

section \<open>The top performer\<close>

lemma getByPostId_postId: "r \<in> set (getByPostId i w) \<Longrightarrow> postId r = i"
  by (auto simp: getByPostId_def)

lemma filter_getByPostId:
  "filter (\<lambda>r. postId r = k) (getByPostId i w) = (if i = k then getByPostId i w else [])"
  by (auto simp: filter_empty_conv dest: getByPostId_postId intro!: filter_True)

lemma allSimResults_of_post:
  "distinct (map post_id allPosts) \<Longrightarrow> q \<in> set allPosts \<Longrightarrow>
   filter (\<lambda>r. postId r = post_id q) (allSimResults allPosts w) = getByPostId (post_id q) w"
proof (induction allPosts)
  case Nil
  then show ?case by simp
next
  case (Cons p ps)
  have rest: "filter (\<lambda>r. postId r = post_id q) (allSimResults ps w) =
        (if q \<in> set ps then getByPostId (post_id q) w else [])" if "post_id q \<notin> post_id ` set ps \<or> q \<in> set ps"
  proof (cases "q \<in> set ps")
    case True
    with Cons show ?thesis by simp
  next
    case False
    with that have "post_id q \<notin> post_id ` set ps" by blast
    then have "\<forall>r \<in> set (allSimResults ps w). postId r \<noteq> post_id q"
      by (auto simp: allSimResults_def image_iff dest!: getByPostId_postId)
    with False show ?thesis by (simp add: filter_empty_conv)
  qed
  show ?case
  proof (cases "q = p")
    case True
    with Cons.prems have "post_id q \<notin> post_id ` set ps" by auto
    with rest True show ?thesis
      using Cons.prems by (auto simp: allSimResults_def filter_getByPostId)
  next
    case False
    with Cons.prems have "q \<in> set ps" "post_id p \<noteq> post_id q" by auto
    with rest show ?thesis
      by (simp add: allSimResults_def filter_getByPostId)
  qed
qed

lemma fold_add_score_keys:
  "fst ` set (fold add_score rs m) = fst ` set m \<union> postId ` set rs"
  by (induction rs arbitrary: m) (auto simp: add_score_def dom_update)

lemma fold_add_score_distinct:
  "distinct (map fst m) \<Longrightarrow> distinct (map fst (fold add_score rs m))"
  by (induction rs arbitrary: m) (auto simp: add_score_def distinct_update)

lemma fold_add_score_value:
  "score_in (fold add_score rs m) k =
     score_in m k + sum_list (map engagementScore (filter (\<lambda>r. postId r = k) rs))"
proof (induction rs arbitrary: m)
  case Nil
  show ?case by simp
next
  case (Cons r rs)
  have "score_in (add_score r m) k = score_in m k + (if postId r = k then engagementScore r else 0)"
    by (simp add: score_in_def add_score_def update_conv')
  with Cons [of "add_score r m"] show ?case by simp
qed

lemma postScores_entry:
  assumes "(k, s) \<in> set (postScores rs)"
  shows "k \<in> postId ` set rs \<and> s = sum_list (map engagementScore (filter (\<lambda>r. postId r = k) rs))"
proof -
  have d: "distinct (map fst (postScores rs))"
    unfolding postScores_def by (rule fold_add_score_distinct) simp
  with assms have "map_of (postScores rs) k = Some s" by simp
  then have "score_in (postScores rs) k = s" by (simp add: score_in_def)
  moreover have "k \<in> fst ` set (postScores rs)" using assms by force
  ultimately show ?thesis
    using fold_add_score_value [of rs "[]" k] fold_add_score_keys [of rs "[]"]
    by (simp add: postScores_def score_in_def)
qed

lemma postScores_has_entry:
  assumes "k \<in> postId ` set rs"
  shows "(k, sum_list (map engagementScore (filter (\<lambda>r. postId r = k) rs))) \<in> set (postScores rs)"
proof -
  from assms have "k \<in> fst ` set (postScores rs)"
    using fold_add_score_keys [of rs "[]"] by (simp add: postScores_def)
  then obtain s where "(k, s) \<in> set (postScores rs)" by auto
  with postScores_entry [OF this] show ?thesis by simp
qed

lemma highest_result:
  "highest xs (k0, s0) = (k, s) \<Longrightarrow>
   s0 \<le> s \<and> (\<forall>(i, sc) \<in> set xs. sc \<le> s) \<and> ((k, s) = (k0, s0) \<or> (k, s) \<in> set xs)"
proof (induction xs arbitrary: k0 s0)
  case Nil
  then show ?case by simp
next
  case (Cons x xs)
  obtain i sc where x: "x = (i, sc)" by (cases x)
  show ?case
  proof (cases "sc > s0")
    case True
    with Cons.prems x have "highest xs (i, sc) = (k, s)" by simp
    from Cons.IH [OF this] True x show ?thesis by auto
  next
    case False
    with Cons.prems x have "highest xs (k0, s0) = (k, s)" by simp
    from Cons.IH [OF this] False x show ?thesis by auto
  qed
qed

text \<open>
  What the worker's loop selects: a post with at least one persisted result whose total
  engagement score (the sum of the scores of its persisted results) is the highest among
  the posts that have one. Post ids are primary keys: distinct, not empty.
\<close>

lemma winningPost_highest_total_score:
  assumes "distinct (map post_id allPosts)" and "[] \<notin> post_id ` set allPosts"
    and "winningPost allPosts w = Some p"
  shows "p \<in> set allPosts \<and> getByPostId (post_id p) w \<noteq> []
       \<and> (\<forall>q \<in> set allPosts. getByPostId (post_id q) w \<noteq> [] \<longrightarrow>
             totalScore (post_id q) w \<le> totalScore (post_id p) w)"
proof -
  let ?rs = "allSimResults allPosts w"
  obtain k s where h: "highest (postScores ?rs) ([], -1) = (k, s)"
    by (cases "highest (postScores ?rs) ([], -1)")
  with assms(3) have f: "find (\<lambda>p. post_id p = k) allPosts = Some p"
    by (simp add: winningPost_def)
  then have p: "p \<in> set allPosts" "post_id p = k"
    by (auto simp: find_Some_iff)
  with assms(2) have "k \<noteq> []" by (metis image_eqI)
  with highest_result [OF h] have mem: "(k, s) \<in> set (postScores ?rs)"
    and top: "\<forall>(i, sc) \<in> set (postScores ?rs). sc \<le> s" by auto
  have rows: "filter (\<lambda>r. postId r = post_id q) ?rs = getByPostId (post_id q) w"
    if "q \<in> set allPosts" for q
    using assms(1) that by (rule allSimResults_of_post)
  from postScores_entry [OF mem] rows [OF p(1)] p(2)
  have k_in: "k \<in> postId ` set ?rs" and s: "s = totalScore (post_id p) w"
    by (simp_all add: totalScore_def)
  have nonempty: "getByPostId (post_id p) w \<noteq> []"
  proof -
    from k_in have "filter (\<lambda>r. postId r = k) ?rs \<noteq> []"
      by (auto simp: filter_empty_conv)
    with rows [OF p(1)] p(2) show ?thesis by simp
  qed
  have "totalScore (post_id q) w \<le> totalScore (post_id p) w"
    if q: "q \<in> set allPosts" and ne: "getByPostId (post_id q) w \<noteq> []" for q
  proof -
    from ne obtain r where "r \<in> set (getByPostId (post_id q) w)" by (cases "getByPostId (post_id q) w") auto
    then have "r \<in> set ?rs" "postId r = post_id q"
      using q by (auto simp: allSimResults_def dest: getByPostId_postId)
    then have "post_id q \<in> postId ` set ?rs" by force
    from postScores_has_entry [OF this] rows [OF q]
    have "(post_id q, totalScore (post_id q) w) \<in> set (postScores ?rs)"
      by (simp add: totalScore_def)
    with top s show ?thesis by auto
  qed
  with p(1) nonempty show ?thesis by blast
qed

text \<open>
  C2. The post the job reports as top performer is not the highest-ranked post. In
  \<open>contested_world\<close> every pair has a result, so the job goes to its summary: the results
  endpoint ranks g1 first (rate 1 against 1/2, total score 2 against 5), and the job, which
  compares total scores only, writes that variation 2 (g2) is the top performer.
\<close>

theorem top_performer_not_highest_ranked:
  "map (post_id \<circ> result_post) (getSimulationResults ''u1'' contested_world) = [''g1'', ''g2'']
   \<and> map (engRate \<circ> simulations) (getSimulationResults ''u1'' contested_world) = [1, 1 / 2]
   \<and> map (totalEngagementScore \<circ> engagement) (getSimulationResults ''u1'' contested_world) =
       [2, 5]
   \<and> map (variationNumber \<circ> result_post) (getSimulationResults ''u1'' contested_world) = [1, 2]
   \<and> simulationStatus (world_after (simulation_job always_yes ''u1'' contested_world)) =
       ''complete''
   \<and> simulationActivityLog (world_after (simulation_job always_yes ''u1'' contested_world)) =
       [AssemblingPanel, AllPostsHaveResults, FocusGroupComplete 4 1 2 0 1,
        TopPerformer (Variation 2)]"
  by code_simp

section \<open>Ranking\<close>

lemma compare_results_le:
  "compare_results a b \<le> 0 \<longleftrightarrow>
     engRate (simulations a) > engRate (simulations b)
     \<or> (engRate (simulations a) = engRate (simulations b)
        \<and> totalEngagementScore (engagement a) \<ge> totalEngagementScore (engagement b))"
  by (auto simp: compare_results_def Let_def)

lemma set_insert_by: "set (insert_by cmp x ys) = insert x (set ys)"
  by (induction ys) auto

lemma mset_insert_by: "mset (insert_by cmp x ys) = add_mset x (mset ys)"
  by (induction ys) auto

lemma sorted_insert_by:
  assumes tot: "\<And>a b. cmp a b \<le> 0 \<or> cmp b a \<le> 0"
    and trans: "\<And>a b c. cmp a b \<le> 0 \<Longrightarrow> cmp b c \<le> 0 \<Longrightarrow> cmp a c \<le> 0"
  shows "sorted_wrt (\<lambda>a b. cmp a b \<le> 0) ys \<Longrightarrow> sorted_wrt (\<lambda>a b. cmp a b \<le> 0) (insert_by cmp x ys)"
proof (induction ys)
  case Nil
  show ?case by simp
next
  case (Cons y ys)
  show ?case
  proof (cases "cmp x y \<le> 0")
    case True
    with Cons.prems trans show ?thesis by auto
  next
    case False
    with tot have "cmp y x \<le> 0" by blast
    with False Cons show ?thesis by (auto simp: set_insert_by)
  qed
qed

lemma Array_sort_compare_results:
  "sorted_wrt (\<lambda>a b. compare_results a b \<le> 0) (Array_sort compare_results prs)
   \<and> mset (Array_sort compare_results prs) = mset prs"
proof (induction prs)
  case Nil
  show ?case by (simp add: Array_sort_def)
next
  case (Cons p prs)
  have "sorted_wrt (\<lambda>a b. compare_results a b \<le> 0)
          (insert_by compare_results p (Array_sort compare_results prs))"
    by (rule sorted_insert_by) (use Cons in \<open>auto simp: compare_results_le\<close>)
  with Cons show ?case by (simp add: Array_sort_def mset_insert_by)
qed

text \<open>
  C4. The comparator orders by rate, then by total score (\<open>Array_sort_compare_results\<close>
  above), but the rate of a post without simulations is not 0: the guard replaces the
  count by 1 in the numerator too, so the rate is \<open>(1 - 0) / 1 = 1\<close> and the post ranks
  above a post that half of the panel engaged with.
\<close>

theorem unsimulated_post_ranks_first:
  "engRate [] = 1
   \<and> map (post_id \<circ> result_post) (getSimulationResults ''u1'' regeneration_world) = [''g2'', ''g1'']
   \<and> map (length \<circ> simulations) (getSimulationResults ''u1'' regeneration_world) = [0, 2]
   \<and> map (engRate \<circ> simulations) (getSimulationResults ''u1'' regeneration_world) = [1, 1 / 2]"
  by code_simp

end
